theory Spec2Isabelle
  imports Main "HOL-Library.Word" "HOL-Library.Signed_Division"
    "HOL-Library.List_Lexorder" "HOL-Library.Char_ord"
begin

section \<open>Data model of the ingest client (client.go, log.go)\<close>

text \<open>
  Go's \<open>int64\<close> and \<open>time.Duration\<close> (nanoseconds, an \<open>int64\<close>) are 64-bit words read
  as two's complement; \<open>[]byte\<close> and \<open>string\<close> are byte lists. The \<open>Data\<close> field of a
  message is an \<open>interface{}\<close>: a small tree of values stands for it.
\<close>

type_synonym int64 = "64 word"
type_synonym Duration = "64 word"
type_synonym bytes = "char list"

definition Millisecond :: Duration where
  "Millisecond = 1000000"

definition Second :: Duration where
  "Second = 1000000000"

datatype go_value = VNil | VBool bool | VInt int | VString string
  | VList "go_value list" | VMap "(string \<times> go_value) list"

record Message =
  Type :: string
  Data :: go_value

record Messages =
  BatchId :: string
  Messages :: "Message list"

text \<open>
  log.go: \<open>DefaultLogger = NewLogger(os.Stderr, LevelWarn)\<close>. A \<open>Logger\<close> field is an
  interface value: \<open>None\<close> is Go's \<open>nil\<close>. What a logger prints is not modelled.
\<close>

datatype Writer = Stderr | Stdout | OtherWriter nat

datatype Logger = NewLogger Writer int

definition LevelWarn :: int where
  "LevelWarn = 20"

definition DefaultLogger :: Logger where
  "DefaultLogger = NewLogger Stderr LevelWarn"

record Error =
  StatusCode :: int
  Status :: string
  Message :: string
  Errors :: "(string \<times> string) list"

record Config =
  Endpoint :: string
  AccessKeyID :: string
  AccessKeySecret :: string
  ClientId :: string
  Encoding :: string
  NoCompression :: bool
  CompressionAlgo :: string
  RetryTimeIntervalInitial :: Duration
  RetryTimeIntervalMax :: Duration
  Logger :: "Logger option"

record Client =
  conf :: Config
  reqCount :: int64

text \<open>
  Go errors. \<open>HttpError\<close> is the \<open>Error\<close> struct that \<open>doRequestWithContext\<close> returns,
  \<open>Errno\<close> a \<open>syscall.Errno\<close>, \<open>Wrapped\<close> an error with an \<open>Unwrap\<close> method
  (\<open>url.Error\<close>, \<open>net.OpError\<close>, \<open>os.SyscallError\<close>), \<open>ErrorString\<close> the result of
  \<open>errors.New\<close> or \<open>fmt.Errorf\<close>, and the last two are \<open>context.Canceled\<close> and
  \<open>context.DeadlineExceeded\<close>.
\<close>

datatype go_error = HttpError Error | Errno nat | Wrapped string go_error
  | ErrorString string | Canceled | DeadlineExceeded

subsection \<open>NewClient\<close>

definition NewClient :: "Config \<Rightarrow> go_error + Client" where
  "NewClient config0 =
    (if Endpoint config0 = [] then Inl (ErrorString ''endpoint is required'')
     else
       let config1 = (if Logger config0 = None
                      then config0\<lparr>Logger := Some DefaultLogger\<rparr> else config0);
           config2 = (if RetryTimeIntervalInitial config1 = 0
                      then config1\<lparr>RetryTimeIntervalInitial := 100 * Millisecond\<rparr>
                      else config1);
           config3 = (if RetryTimeIntervalMax config2 = 0
                      then config2\<lparr>RetryTimeIntervalMax := 5 * Second\<rparr> else config2)
       in
         if Encoding config3 \<noteq> ''json'' \<and> Encoding config3 \<noteq> ''msgpack''
            \<and> Encoding config3 \<noteq> []
         then Inl (ErrorString (''unkonwn encoding '' @ Encoding config3))
         else
           let config4 = (if Encoding config3 = []
                          then config3\<lparr>Encoding := ''json''\<rparr> else config3)
           in
             if CompressionAlgo config4 \<noteq> ''gzip'' \<and> CompressionAlgo config4 \<noteq> []
             then Inl (ErrorString (''unkonwn compressionAlgo '' @ CompressionAlgo config4))
             else
               let config5 = (if CompressionAlgo config4 = []
                              then config4\<lparr>CompressionAlgo := ''gzip''\<rparr> else config4)
               in Inr \<lparr>conf = config5, reqCount = 0\<rparr>)"

subsection \<open>Retry classification: isCaredError\<close>

text \<open>
  \<open>errors.As(err, &innerErr)\<close> with \<open>innerErr\<close> of type \<open>Error\<close> walks the
  \<open>Unwrap\<close> chain to the first \<open>Error\<close> value; \<open>errors.Is(err, errno)\<close> walks it to
  an equal \<open>syscall.Errno\<close>. The errno numbers are those of package syscall on Linux.
\<close>

fun errors_As_Error :: "go_error \<Rightarrow> Error option" where
  "errors_As_Error (HttpError e) = Some e"
| "errors_As_Error (Wrapped s e) = errors_As_Error e"
| "errors_As_Error e = None"

fun errors_Is_Errno :: "go_error \<Rightarrow> nat \<Rightarrow> bool" where
  "errors_Is_Errno (Errno n) target = (n = target)"
| "errors_Is_Errno (Wrapped s e) target = errors_Is_Errno e target"
| "errors_Is_Errno e target = False"

definition ETIMEDOUT :: nat where
  "ETIMEDOUT = 110"

definition ECONNREFUSED :: nat where
  "ECONNREFUSED = 111"

definition StatusTooManyRequests :: int where
  "StatusTooManyRequests = 429"

definition StatusRequestTimeout :: int where
  "StatusRequestTimeout = 408"

definition StatusBadGateway :: int where
  "StatusBadGateway = 502"

definition StatusServiceUnavailable :: int where
  "StatusServiceUnavailable = 503"

definition StatusGatewayTimeout :: int where
  "StatusGatewayTimeout = 504"

definition isCaredError :: "go_error \<Rightarrow> bool" where
  "isCaredError err =
    (case errors_As_Error err of
       Some innerErr \<Rightarrow>
         (if StatusCode innerErr = StatusTooManyRequests
             \<or> StatusCode innerErr = StatusRequestTimeout then True
          else if StatusCode innerErr = StatusBadGateway
             \<or> StatusCode innerErr = StatusServiceUnavailable
             \<or> StatusCode innerErr = StatusGatewayTimeout then True
          else False)
     | None \<Rightarrow>
         (if errors_Is_Errno err ETIMEDOUT \<or> errors_Is_Errno err ECONNREFUSED then True
          else False))"

subsection \<open>Decimal formatting (strconv.Itoa, fmt.Sprint and the verb %d)\<close>

definition digit_char :: "nat \<Rightarrow> char" where
  "digit_char d = ''0123456789'' ! d"

fun string_of_nat :: "nat \<Rightarrow> string" where
  "string_of_nat n =
    (if n < 10 then [digit_char n]
     else string_of_nat (n div 10) @ [digit_char (n mod 10)])"

declare string_of_nat.simps [simp del]

definition itoa :: "int \<Rightarrow> string" where
  "itoa i = (if i < 0 then CHR ''-'' # string_of_nat (nat (- i)) else string_of_nat (nat i))"

subsection \<open>The transport: encoding, compress, calculateSignature, doRequestWithContext\<close>

text \<open>
  Code of other packages that the transport calls is a parameter of the model:
  the two marshallers, the gzip writer, the URL parser behind \<open>http.NewRequest\<close>,
  HMAC-SHA256 (\<open>hmac.New(sha256.New, key)\<close> followed by \<open>Sum\<close>), base64 and
  \<open>json.Unmarshal\<close> into a zero \<open>Error\<close> (its error and the struct it leaves).
\<close>

record externals =
  json_Marshal :: "Messages \<Rightarrow> go_error + bytes"
  msgpack_Marshal :: "Messages \<Rightarrow> go_error + bytes"
  gzip_Write_Close :: "bytes \<Rightarrow> go_error + bytes"
  url_Parse :: "string \<Rightarrow> go_error option"
  hmac_sha256 :: "bytes \<Rightarrow> bytes \<Rightarrow> bytes"
  base64_EncodeToString :: "bytes \<Rightarrow> string"
  json_Unmarshal :: "bytes \<Rightarrow> go_error option \<times> Error"

datatype encoding_branch = JsonBranch | MsgpackBranch | UnsupportedBranch

definition encoding_branch_of :: "string \<Rightarrow> encoding_branch" where
  "encoding_branch_of enc =
    (if enc = ''json'' then JsonBranch
     else if enc = ''msgpack'' then MsgpackBranch
     else UnsupportedBranch)"

definition encoding :: "externals \<Rightarrow> string \<Rightarrow> Messages \<Rightarrow> go_error + bytes" where
  "encoding x enc v =
    (case encoding_branch_of enc of
       JsonBranch \<Rightarrow> (case json_Marshal x v of Inl err \<Rightarrow> Inl err | Inr data \<Rightarrow> Inr data)
     | MsgpackBranch \<Rightarrow> (case msgpack_Marshal x v of Inl err \<Rightarrow> Inl err | Inr data \<Rightarrow> Inr data)
     | UnsupportedBranch \<Rightarrow> Inl (ErrorString ''unsupported compression format''))"

definition compress :: "externals \<Rightarrow> bytes \<Rightarrow> go_error + bytes" where
  "compress x content = gzip_Write_Close x content"

text \<open>
  \<open>hmac.New\<close> gives a hash whose \<open>Write\<close> appends to the message and whose
  \<open>Sum(nil)\<close> is the MAC of everything written.
\<close>

record hmac_state =
  hkey :: bytes
  written :: bytes

definition hmac_New :: "bytes \<Rightarrow> hmac_state" where
  "hmac_New k = \<lparr>hkey = k, written = []\<rparr>"

definition hmac_Write :: "hmac_state \<Rightarrow> bytes \<Rightarrow> hmac_state" where
  "hmac_Write h bs = h\<lparr>written := written h @ bs\<rparr>"

definition hmac_Sum :: "externals \<Rightarrow> hmac_state \<Rightarrow> bytes" where
  "hmac_Sum x h = hmac_sha256 x (hkey h) (written h)"

definition calculateSignature ::
  "externals \<Rightarrow> string \<Rightarrow> string \<Rightarrow> string \<Rightarrow> string \<Rightarrow> string \<Rightarrow> string \<Rightarrow> bytes \<Rightarrow> bytes" where
  "calculateSignature x method url accessKeyId timestamp nonce accessKeySecret body =
    (let h0 = hmac_New accessKeySecret;
         h1 = hmac_Write h0 method;
         h2 = hmac_Write h1 url;
         h3 = hmac_Write h2 accessKeyId;
         h4 = hmac_Write h3 nonce;
         h5 = hmac_Write h4 timestamp;
         h6 = hmac_Write h5 body
     in hmac_Sum x h6)"

text \<open>
  A request as \<open>Client_Collect\<close> builds it. Header names are kept as the source writes them
  (HTTP header names are case-insensitive).
\<close>

record Request =
  Method :: string
  URL :: string
  Header :: "string \<Rightarrow> string option"
  Body :: bytes
  Close :: bool

definition Header_Set :: "Request \<Rightarrow> string \<Rightarrow> string \<Rightarrow> Request" where
  "Header_Set req k v = req\<lparr>Header := (Header req)(k \<mapsto> v)\<rparr>"

definition NewRequest :: "externals \<Rightarrow> string \<Rightarrow> string \<Rightarrow> bytes \<Rightarrow> go_error + Request" where
  "NewRequest x method url body =
    (case url_Parse x url of
       Some err \<Rightarrow> Inl err
     | None \<Rightarrow> Inr \<lparr>Method = method, URL = url, Header = Map.empty, Body = body, Close = False\<rparr>)"

text \<open>
  What one send attempt meets: the clock and the random source read by
  \<open>doRequestWithContext\<close>, what \<open>httpClient.Do\<close> and \<open>ioutil.ReadAll\<close> give, and
  which case of the \<open>select\<close> after a retryable failure is taken (the timer, or
  \<open>ctx.Done()\<close> with the value of \<open>ctx.Err()\<close>).
\<close>

datatype http_outcome = DoFailed go_error | ReadFailed go_error
  | Response int string bytes

datatype wait_outcome = TimerFired | CtxDone go_error

record attempt =
  now_Unix :: int64
  rand_Int :: int
  outcome :: http_outcome
  wait :: wait_outcome

definition zero_Error :: Error where
  "zero_Error = \<lparr>StatusCode = 0, Status = [], Message = [], Errors = []\<rparr>"

definition handle_outcome :: "externals \<Rightarrow> http_outcome \<Rightarrow> go_error option" where
  "handle_outcome x out =
    (case out of
       DoFailed err \<Rightarrow> Some err
     | ReadFailed err \<Rightarrow> Some err
     | Response statusCode status responseBody \<Rightarrow>
         (if statusCode \<noteq> 200 then
            (case json_Unmarshal x responseBody of (uerr, rerr0) \<Rightarrow>
               let rerr1 = (if uerr \<noteq> None then rerr0\<lparr>Message := responseBody\<rparr> else rerr0);
                   rerr2 = rerr1\<lparr>StatusCode := statusCode\<rparr>;
                   rerr3 = rerr2\<lparr>Status := status\<rparr>
               in Some (HttpError rerr3))
          else None))"

definition sign_request ::
  "externals \<Rightarrow> Config \<Rightarrow> Request \<Rightarrow> string \<Rightarrow> string \<Rightarrow> bytes \<Rightarrow> attempt \<Rightarrow> Request" where
  "sign_request x cf req method api data a =
    (let timestamp = itoa (sint (now_Unix a));
         nonce = itoa (rand_Int a);
         req1 = Header_Set req ''X-AccessKeyId'' (AccessKeyID cf);
         req2 = Header_Set req1 ''X-Timestamp'' timestamp;
         req3 = Header_Set req2 ''X-Nonce'' nonce;
         signature = calculateSignature x method api (AccessKeyID cf) timestamp nonce
                       (AccessKeySecret cf) data;
         req4 = Header_Set req3 ''X-Signature'' (base64_EncodeToString x signature)
     in Header_Set req4 ''User-Agent'' ''turbine-ingest-client/unknown'')"

definition doRequestWithContext ::
  "externals \<Rightarrow> Config \<Rightarrow> Request \<Rightarrow> string \<Rightarrow> string \<Rightarrow> bytes \<Rightarrow> attempt
    \<Rightarrow> Request \<times> go_error option" where
  "doRequestWithContext x cf req method api data a =
    (sign_request x cf req method api data a, handle_outcome x (outcome a))"

subsection \<open>Collect: encode, compress, then the retry loop\<close>

text \<open>
  The method \<open>Collect\<close> of \<open>Client\<close> is \<open>Client_Collect\<close> here (\<open>Collect\<close> is HOL's set
  comprehension). It is modelled for one call on its own: no other goroutine
  touches \<open>reqCount\<close> meanwhile.
  \<open>result\<close> is the error \<open>Client_Collect\<close> returns (\<open>None\<close> is \<open>nil\<close>), \<open>sent\<close> the
  requests handed to \<open>httpClient.Do\<close> in order, \<open>waits\<close> the intervals passed to
  \<open>time.After\<close> in order, \<open>count\<close> the client's \<open>reqCount\<close> afterwards. The list of
  attempts is what the environment does at each send; when the list ends while
  the loop still retries, the model has no result (\<open>None\<close>).
\<close>

record run =
  result :: "go_error option"
  sent :: "Request list"
  waits :: "Duration list"
  count :: int64

definition next_interval :: "Duration \<Rightarrow> Duration \<Rightarrow> Duration" where
  "next_interval timeInterval timeIntervalMax =
    (let t = timeInterval * 2
     in if word_sle timeIntervalMax t then timeIntervalMax else t)"

definition prepare_request :: "externals \<Rightarrow> Config \<Rightarrow> bytes \<Rightarrow> int64 \<Rightarrow> go_error + Request" where
  "prepare_request x cf data rc1 =
    (case NewRequest x ''POST'' (Endpoint cf @ ''/v1/collect'') data of
       Inl err \<Rightarrow> Inl err
     | Inr req0 \<Rightarrow>
         let req1 = (if sint rc1 smod 20 = 0 then req0\<lparr>Close := True\<rparr> else req0);
             req2 = Header_Set req1 ''Content-Type'' (''application/'' @ Encoding cf);
             req3 = Header_Set req2 ''X-Ingest-Client-ID'' (ClientId cf)
         in Inr (if \<not> NoCompression cf then Header_Set req3 ''Content-Encoding'' ''gzip''
                 else req3))"

fun retry :: "externals \<Rightarrow> Config \<Rightarrow> bytes \<Rightarrow> int64 \<Rightarrow> Duration \<Rightarrow> Duration
    \<Rightarrow> attempt list \<Rightarrow> run option" where
  "retry x cf data rc timeInterval timeIntervalMax [] = None"
| "retry x cf data rc timeInterval timeIntervalMax (a # as) =
    (case prepare_request x cf data (rc + 1) of
       Inl err \<Rightarrow> Some \<lparr>result = Some err, sent = [], waits = [], count = rc\<rparr>
     | Inr req \<Rightarrow>
         (case doRequestWithContext x cf req ''POST'' ''/v1/collect'' data a of
            (req', None) \<Rightarrow>
              Some \<lparr>result = None, sent = [req'], waits = [], count = rc + 1\<rparr>
          | (req', Some err) \<Rightarrow>
              (if isCaredError err then
                 let timeInterval' = next_interval timeInterval timeIntervalMax
                 in (case wait a of
                       TimerFired \<Rightarrow>
                         map_option
                           (\<lambda>r. r\<lparr>sent := req' # sent r, waits := timeInterval' # waits r\<rparr>)
                           (retry x cf data (rc + 1) timeInterval' timeIntervalMax as)
                     | CtxDone cerr \<Rightarrow>
                         Some \<lparr>result = Some cerr, sent = [req'], waits = [timeInterval'],
                               count = rc + 1\<rparr>)
               else Some \<lparr>result = Some err, sent = [req'], waits = [], count = rc + 1\<rparr>)))"

definition encode_body :: "externals \<Rightarrow> Config \<Rightarrow> Messages \<Rightarrow> go_error + bytes" where
  "encode_body x cf messages =
    (case encoding x (Encoding cf) messages of
       Inl err \<Rightarrow> Inl err
     | Inr data \<Rightarrow>
         (if \<not> NoCompression cf then
            (case compress x data of Inl err \<Rightarrow> Inl err | Inr data' \<Rightarrow> Inr data')
          else Inr data))"

definition Client_Collect :: "externals \<Rightarrow> Client \<Rightarrow> Messages \<Rightarrow> attempt list \<Rightarrow> run option" where
  "Client_Collect x c messages script =
    (case encode_body x (conf c) messages of
       Inl err \<Rightarrow> Some \<lparr>result = Some err, sent = [], waits = [], count = reqCount c\<rparr>
     | Inr data \<Rightarrow>
         retry x (conf c) data (reqCount c) (RetryTimeIntervalInitial (conf c))
           (RetryTimeIntervalMax (conf c)) script)"

section \<open>The buffered client\<close>

text \<open>
  \<open>BufferedClientConfig\<close> repeats the fields of \<open>Config\<close> and adds three, so it is
  an extension of the \<open>Config\<close> record. Of \<open>BufferedClient\<close> the channels are left
  out: what the batching loop receives is its list of events, what it sends on
  \<open>outBatches\<close> is a list.
\<close>

record BufferedClientConfig = Config +
  MaxMessagesPerBatch :: int
  MaxDurationPerBatch :: Duration
  MaxConcurrency :: int

record BufferedClient =
  bc_conf :: BufferedClientConfig
  client :: Client
  nextBatchID :: int64
  closed :: int64

definition NewBufferedClient :: "BufferedClientConfig \<Rightarrow> go_error + BufferedClient" where
  "NewBufferedClient config0 =
    (let clientConfig =
           \<lparr>Endpoint = Endpoint config0,
            AccessKeyID = AccessKeyID config0,
            AccessKeySecret = AccessKeySecret config0,
            ClientId = ClientId config0,
            Encoding = Encoding config0,
            NoCompression = NoCompression config0,
            CompressionAlgo = CompressionAlgo config0,
            RetryTimeIntervalInitial = RetryTimeIntervalInitial config0,
            RetryTimeIntervalMax = RetryTimeIntervalMax config0,
            Logger = Logger config0\<rparr>
     in case NewClient clientConfig of
          Inl err \<Rightarrow> Inl err
        | Inr cl \<Rightarrow>
            let config1 = (if MaxMessagesPerBatch config0 = 0
                           then config0\<lparr>MaxMessagesPerBatch := 2000\<rparr> else config0);
                config2 = (if MaxDurationPerBatch config1 = 0
                           then config1\<lparr>MaxDurationPerBatch := 50 * Millisecond\<rparr>
                           else config1);
                config3 = (if MaxConcurrency config2 = 0
                           then config2\<lparr>MaxConcurrency := 10\<rparr> else config2)
            in Inr \<lparr>bc_conf = config3, client = cl, nextBatchID = 0, closed = 0\<rparr>)"

subsection \<open>batchingLoop\<close>

text \<open>
  The clock is in nanoseconds since the Unix epoch; \<open>UnixMilli\<close> is its quotient by
  \<open>10^6\<close>. \<open>newBatch\<close> is the closure of \<open>batchingLoop\<close>.
\<close>

definition batchID_of :: "int \<Rightarrow> int64 \<Rightarrow> string" where
  "batchID_of unixMilli n = ''b-'' @ itoa unixMilli @ ''-'' @ itoa (sint n)"

definition newBatch :: "int \<Rightarrow> BufferedClient \<Rightarrow> Messages \<times> BufferedClient" where
  "newBatch now bc =
    (let batchID = batchID_of (now div 1000000) (nextBatchID bc)
     in (\<lparr>BatchId = batchID, Messages = []\<rparr>, bc\<lparr>nextBatchID := nextBatchID bc + 1\<rparr>))"

text \<open>
  One iteration of the \<open>select\<close> takes one event, read at a clock time: a message
  from \<open>inMsgs\<close>, a value from \<open>timer.C\<close>, or the closed \<open>closeCh\<close>. The timer is the
  time at which it fires, or \<open>None\<close> once its value has been received and it has not
  been reset; \<open>timer.C\<close> can be received from only when the timer is set and its
  time has come. \<open>cur\<close> is the local variable \<open>b\<close>.
\<close>

datatype event = InMsg Message | TimerC | CloseCh

record loop_state =
  bc :: BufferedClient
  cur :: Messages
  timer :: "int option"
  outBatches :: "Messages list"
  exited :: bool

fun loop :: "loop_state \<Rightarrow> (int \<times> event) list \<Rightarrow> loop_state option" where
  "loop s [] = Some s"
| "loop s ((now, InMsg msg) # es) =
    (let b1 = (cur s)\<lparr>Messages := Messages (cur s) @ [msg]\<rparr>
     in if int (length (Messages b1)) \<ge> MaxMessagesPerBatch (bc_conf (bc s)) then
          (case newBatch now (bc s) of (b2, bc2) \<Rightarrow>
             loop (s\<lparr>outBatches := outBatches s @ [b1], cur := b2, bc := bc2,
                     timer := Some (now + sint (MaxDurationPerBatch (bc_conf (bc s))))\<rparr>) es)
        else loop (s\<lparr>cur := b1\<rparr>) es)"
| "loop s ((now, TimerC) # es) =
    (case timer s of
       None \<Rightarrow> None
     | Some fires \<Rightarrow>
         if now < fires then None
         else if length (Messages (cur s)) > 0 then
           (case newBatch now (bc s) of (b2, bc2) \<Rightarrow>
              loop (s\<lparr>outBatches := outBatches s @ [cur s], cur := b2, bc := bc2,
                      timer := None\<rparr>) es)
         else loop (s\<lparr>timer := None\<rparr>) es)"
| "loop s ((now, CloseCh) # es) =
    (if length (Messages (cur s)) > 0
     then Some (s\<lparr>outBatches := outBatches s @ [cur s], exited := True\<rparr>)
     else Some (s\<lparr>exited := True\<rparr>))"

definition batchingLoop :: "BufferedClient \<Rightarrow> int \<Rightarrow> (int \<times> event) list \<Rightarrow> loop_state option" where
  "batchingLoop bc0 now0 es =
    (case newBatch now0 bc0 of (b0, bc1) \<Rightarrow>
       loop \<lparr>bc = bc1, cur = b0,
             timer = Some (now0 + sint (MaxDurationPerBatch (bc_conf bc0))),
             outBatches = [], exited = False\<rparr> es)"

section \<open>Concrete inputs\<close>

text \<open>
  Stand-ins for the external packages and the configurations of the repository's
  examples, for the closed statements below.
\<close>

definition stub_externals :: externals where
  "stub_externals =
    \<lparr>json_Marshal = (\<lambda>m. Inr (''json:'' @ BatchId m)),
     msgpack_Marshal = (\<lambda>m. Inr (''msgpack:'' @ BatchId m)),
     gzip_Write_Close = (\<lambda>bs. Inr (''gz:'' @ bs)),
     url_Parse = (\<lambda>u. None),
     hmac_sha256 = (\<lambda>k m. ''mac('' @ k @ '','' @ m @ '')''),
     base64_EncodeToString = (\<lambda>bs. ''b64:'' @ bs),
     json_Unmarshal = (\<lambda>bs. if bs = ''{}'' then (None, zero_Error)
                         else (Some (ErrorString ''invalid character''), zero_Error))\<rparr>"

definition example_Config :: Config where
  "example_Config =
    \<lparr>Endpoint = ''http://localhost:8088'', AccessKeyID = ''admin'',
     AccessKeySecret = ''adminSecret'', ClientId = [], Encoding = [],
     NoCompression = False, CompressionAlgo = [], RetryTimeIntervalInitial = 0,
     RetryTimeIntervalMax = 0, Logger = None\<rparr>"

definition example_Client :: Client where
  "example_Client =
    \<lparr>conf = example_Config\<lparr>Encoding := ''json'', CompressionAlgo := ''gzip'',
       RetryTimeIntervalInitial := 100 * Millisecond, RetryTimeIntervalMax := 5 * Second,
       Logger := Some DefaultLogger\<rparr>,
     reqCount = 0\<rparr>"

definition example_BufferedClientConfig :: BufferedClientConfig where
  "example_BufferedClientConfig =
    \<lparr>Endpoint = ''http://localhost:8088'', AccessKeyID = ''admin'',
     AccessKeySecret = ''adminSecret'', ClientId = [], Encoding = [],
     NoCompression = False, CompressionAlgo = [], RetryTimeIntervalInitial = 0,
     RetryTimeIntervalMax = 0, Logger = None,
     MaxMessagesPerBatch = 0, MaxDurationPerBatch = 0, MaxConcurrency = 0\<rparr>"

definition example_Messages :: Messages where
  "example_Messages =
    \<lparr>BatchId = ''b-0-0'',
     Messages = [\<lparr>Type = ''Event'',
                  Data = VMap [(''event'', VString ''login''), (''pid'', VInt 42)]\<rparr>]\<rparr>"

definition example_Request :: Request where
  "example_Request =
    \<lparr>Method = ''POST'', URL = ''http://localhost:8088/v1/collect'', Header = Map.empty,
     Body = ''{}'', Close = False\<rparr>"

definition attempt_200 :: attempt where
  "attempt_200 = \<lparr>now_Unix = 1700000001, rand_Int = 43,
     outcome = Response 200 ''200 OK'' [], wait = TimerFired\<rparr>"

definition attempt_204 :: attempt where
  "attempt_204 = \<lparr>now_Unix = 1700000001, rand_Int = 43,
     outcome = Response 204 ''204 No Content'' [], wait = TimerFired\<rparr>"

definition attempt_503 :: attempt where
  "attempt_503 = \<lparr>now_Unix = 1700000000, rand_Int = 42,
     outcome = Response 503 ''503 Service Unavailable'' ''busy'', wait = TimerFired\<rparr>"

definition attempt_503_cancelled :: attempt where
  "attempt_503_cancelled = \<lparr>now_Unix = 1700000002, rand_Int = 44,
     outcome = Response 503 ''503 Service Unavailable'' ''busy'', wait = CtxDone Canceled\<rparr>"

text \<open>A marshaller that fails, as \<open>json.Marshal\<close> does on a \<open>NaN\<close> in \<open>Data\<close>.\<close>

definition failing_externals :: externals where
  "failing_externals =
     stub_externals\<lparr>json_Marshal := (\<lambda>m. Inl (ErrorString ''json: unsupported value: NaN''))\<rparr>"

definition attempt_400 :: attempt where
  "attempt_400 = \<lparr>now_Unix = 1700000003, rand_Int = 45,
     outcome = Response 400 ''400 Bad Request'' ''{}'', wait = TimerFired\<rparr>"






section \<open>Notions used in the statements and proofs\<close>

text \<open>
  After an attempt the loop goes on to another one exactly when the attempt failed
  with a retryable error and the \<open>select\<close> took the timer; otherwise \<open>Collect\<close>
  returns, with \<open>final_result\<close>, having started the wait \<open>final_waits\<close> if any.
  \<open>intervals t tmax n\<close> are the first \<open>n\<close> values the loop gives \<open>timeInterval\<close>.
\<close>

definition goes_on :: "externals \<Rightarrow> attempt \<Rightarrow> bool" where
  "goes_on x a =
    (case handle_outcome x (outcome a) of
       None \<Rightarrow> False
     | Some err \<Rightarrow> isCaredError err \<and> wait a = TimerFired)"

definition final_result :: "externals \<Rightarrow> attempt \<Rightarrow> go_error option" where
  "final_result x a =
    (case handle_outcome x (outcome a) of
       None \<Rightarrow> None
     | Some err \<Rightarrow>
         if isCaredError err
         then (case wait a of CtxDone cerr \<Rightarrow> Some cerr | TimerFired \<Rightarrow> None)
         else Some err)"

definition final_waits :: "externals \<Rightarrow> attempt \<Rightarrow> Duration \<Rightarrow> Duration list" where
  "final_waits x a t =
    (case handle_outcome x (outcome a) of
       None \<Rightarrow> []
     | Some err \<Rightarrow> if isCaredError err then [t] else [])"

fun intervals :: "Duration \<Rightarrow> Duration \<Rightarrow> nat \<Rightarrow> Duration list" where
  "intervals t tmax 0 = []"
| "intervals t tmax (Suc n) = next_interval t tmax # intervals (next_interval t tmax) tmax n"

text \<open>
  A request is signed for a configuration when its \<open>X-Signature\<close> header is the
  base64 text of the MAC, keyed by the secret, of method, path, key id, the nonce
  and the timestamp of its own headers, and its body, in this order.
\<close>

definition signed_for :: "externals \<Rightarrow> Config \<Rightarrow> Request \<Rightarrow> bool" where
  "signed_for x cf req =
    (case (Header req ''X-Nonce'', Header req ''X-Timestamp'') of
       (Some nonce, Some timestamp) \<Rightarrow>
         Header req ''X-Signature'' =
           Some (base64_EncodeToString x
             (hmac_sha256 x (AccessKeySecret cf)
                (Method req @ ''/v1/collect'' @ AccessKeyID cf @ nonce @ timestamp @ Body req)))
     | _ \<Rightarrow> False)"


function chunks :: "nat \<Rightarrow> 'a list \<Rightarrow> 'a list list" where
  "chunks k xs = (if k = 0 \<or> xs = [] then [] else take k xs # chunks k (drop k xs))"
  by pat_completeness auto
termination
  by (relation "measure (\<lambda>(k, xs). length xs)") auto

declare chunks.simps [simp del]

text \<open>
  A value can be received from \<open>timer.C\<close> at a clock time when the timer is set
  and that time is not before the time at which it fires.
\<close>

definition timer_due :: "loop_state \<Rightarrow> int \<Rightarrow> bool" where
  "timer_due s now = (case timer s of None \<Rightarrow> False | Some fires \<Rightarrow> fires \<le> now)"






section \<open>Properties\<close>

subsection \<open>The examples, evaluated\<close>

lemmas example_defs = stub_externals_def example_Client_def example_Config_def
  example_Messages_def attempt_200_def attempt_204_def attempt_503_def
  attempt_503_cancelled_def failing_externals_def zero_Error_def example_Request_def

lemmas collect_defs = Client_Collect_def encode_body_def encoding_def encoding_branch_of_def
  compress_def prepare_request_def NewRequest_def doRequestWithContext_def handle_outcome_def
  isCaredError_def StatusTooManyRequests_def StatusRequestTimeout_def
  StatusBadGateway_def StatusServiceUnavailable_def StatusGatewayTimeout_def
  next_interval_def Millisecond_def Second_def Let_def smod_int_alt_def

lemma NewClient_example: "NewClient example_Config = Inr example_Client"
  by (simp add: NewClient_def example_Config_def example_Client_def Millisecond_def Second_def)

lemma example_encode:
  "encode_body stub_externals (conf example_Client) example_Messages = Inr ''gz:json:b-0-0''"
  by (simp add: example_defs collect_defs)

lemma example_url:
  "url_Parse stub_externals (Endpoint (conf example_Client) @ ''/v1/collect'') = None"
  by (simp add: example_defs)

lemma example_handle:
  "handle_outcome stub_externals (outcome attempt_200) = None"
  "handle_outcome stub_externals (outcome attempt_503) =
     Some (HttpError \<lparr>StatusCode = 503, Status = ''503 Service Unavailable'', Message = ''busy'', Errors = []\<rparr>)"
  "handle_outcome stub_externals (outcome attempt_503_cancelled) =
     Some (HttpError \<lparr>StatusCode = 503, Status = ''503 Service Unavailable'', Message = ''busy'', Errors = []\<rparr>)"
  "wait attempt_503 = TimerFired" "wait attempt_503_cancelled = CtxDone Canceled"
  "isCaredError (HttpError \<lparr>StatusCode = 503, Status = ''503 Service Unavailable'', Message = ''busy'', Errors = []\<rparr>)"
  by (simp_all add: example_defs collect_defs)

lemma example_collect_200:
  "\<exists>r req. Client_Collect stub_externals example_Client example_Messages [attempt_200] = Some r
      \<and> sent r = [req]"
  by (simp add: example_defs collect_defs)

subsection \<open>Construction\<close>

lemma NewClient_endpoint: "NewClient c = Inr cl \<Longrightarrow> Endpoint c \<noteq> []"
  by (auto simp: NewClient_def split: if_splits)

lemma NewClient_defaults:
  "NewClient config = Inr c \<Longrightarrow>
     Logger (conf c) = (if Logger config = None then Some DefaultLogger else Logger config)
     \<and> RetryTimeIntervalInitial (conf c) =
         (if RetryTimeIntervalInitial config = 0 then 100 * Millisecond
          else RetryTimeIntervalInitial config)
     \<and> RetryTimeIntervalMax (conf c) =
         (if RetryTimeIntervalMax config = 0 then 5 * Second else RetryTimeIntervalMax config)
     \<and> Encoding (conf c) = (if Encoding config = [] then ''json'' else Encoding config)
     \<and> CompressionAlgo (conf c) =
         (if CompressionAlgo config = [] then ''gzip'' else CompressionAlgo config)
     \<and> Endpoint (conf c) = Endpoint config
     \<and> AccessKeyID (conf c) = AccessKeyID config
     \<and> AccessKeySecret (conf c) = AccessKeySecret config
     \<and> ClientId (conf c) = ClientId config
     \<and> NoCompression (conf c) = NoCompression config"
  by (auto simp: NewClient_def Let_def split: if_splits)

text \<open>
  C10. A client that \<open>NewClient\<close> returns has \<open>Encoding\<close> equal to \<open>json\<close> or
  \<open>msgpack\<close> and \<open>CompressionAlgo\<close> equal to \<open>gzip\<close>; so \<open>encoding\<close>, which \<open>Collect\<close>
  calls with \<open>conf.Encoding\<close>, never takes its "unsupported compression format"
  branch for such a client.
\<close>

theorem NewClient_encoding_supported:
  "NewClient config = Inr c \<Longrightarrow>
     (Encoding (conf c) = ''json'' \<or> Encoding (conf c) = ''msgpack'')
     \<and> CompressionAlgo (conf c) = ''gzip''
     \<and> encoding_branch_of (Encoding (conf c)) \<noteq> UnsupportedBranch"
  by (auto simp: NewClient_def Let_def encoding_branch_of_def split: if_splits)

theorem NewClient_encoding_supported_witness:
  "NewClient example_Config = Inr example_Client
   \<and> Encoding (conf example_Client) = ''json''
   \<and> CompressionAlgo (conf example_Client) = ''gzip''
   \<and> encoding_branch_of (Encoding (conf example_Client)) \<noteq> UnsupportedBranch"
  using NewClient_example NewClient_encoding_supported [OF NewClient_example]
  by (simp add: example_Client_def)

text \<open>
  C9, at the configuration of the README with no logger given:
  \<open>NewBufferedClient\<close> passes a copy of the options to \<open>NewClient\<close>, so the defaults
  of \<open>NewClient\<close> reach the inner client only; the \<open>conf\<close> of the buffered client,
  whose \<open>Logger\<close> the batching loop calls, keeps the \<open>nil\<close> logger.
\<close>

theorem NewBufferedClient_Logger_nil:
  "(case NewBufferedClient example_BufferedClientConfig of
      Inl err \<Rightarrow> False
    | Inr b \<Rightarrow> Logger (bc_conf b) = None \<and> Logger (conf (client b)) = Some DefaultLogger
         \<and> Encoding (bc_conf b) = [] \<and> Encoding (conf (client b)) = ''json''
         \<and> MaxMessagesPerBatch (bc_conf b) = 2000)"
  by (simp add: NewBufferedClient_def NewClient_def example_BufferedClientConfig_def)

subsection \<open>One send attempt\<close>

text \<open>
  C5 as stated fails: only status 200 is a success. A response with another
  status of the 2xx range, here 204, makes the attempt return an \<open>Error\<close>.
\<close>

theorem status_204_is_error:
  "snd (doRequestWithContext stub_externals (conf example_Client) example_Request
          ''POST'' ''/v1/collect'' ''{}'' attempt_204) =
     Some (HttpError \<lparr>StatusCode = 204, Status = ''204 No Content'', Message = [],
                       Errors = []\<rparr>)"
  by (simp add: example_defs collect_defs)

text \<open>
  C5, amended: a response with status 200 makes the attempt succeed; a response
  with any other status makes it return an \<open>Error\<close> with the status code and status
  text of the response, with \<open>Message\<close> and \<open>Errors\<close> as \<open>json.Unmarshal\<close> decoded them
  when it decoded the body without error, and with \<open>Message\<close> the raw body when it
  did not.
\<close>

theorem doRequest_response:
  "outcome a = Response statusCode status body \<Longrightarrow>
   snd (doRequestWithContext x cf req method api data a) =
     (if statusCode = 200 then None
      else Some (HttpError
        (case json_Unmarshal x body of
           (None, parsed) \<Rightarrow>
             \<lparr>StatusCode = statusCode, Status = status, Message = Message parsed,
              Errors = Errors parsed\<rparr>
         | (Some uerr, partial) \<Rightarrow>
             \<lparr>StatusCode = statusCode, Status = status, Message = body,
              Errors = Errors partial\<rparr>)))"
  by (auto simp: doRequestWithContext_def handle_outcome_def Let_def
      split: prod.splits option.splits)

theorem doRequest_response_witness:
  "outcome attempt_503 = Response 503 ''503 Service Unavailable'' ''busy''
   \<and> snd (doRequestWithContext stub_externals (conf example_Client) example_Request
            ''POST'' ''/v1/collect'' ''{}'' attempt_503) =
      Some (HttpError \<lparr>StatusCode = 503, Status = ''503 Service Unavailable'',
                        Message = ''busy'', Errors = []\<rparr>)"
  using doRequest_response [of attempt_503 503 "''503 Service Unavailable''" "''busy''"
      stub_externals "conf example_Client" example_Request "''POST''" "''/v1/collect''" "''{}''"]
  by (simp add: attempt_503_def stub_externals_def zero_Error_def)

subsection \<open>The signature\<close>

lemma calculateSignature_eq:
  "calculateSignature x method url accessKeyId timestamp nonce accessKeySecret body =
     hmac_sha256 x accessKeySecret (method @ url @ accessKeyId @ nonce @ timestamp @ body)"
  by (simp add: calculateSignature_def hmac_New_def hmac_Write_def hmac_Sum_def)

lemma sign_request_headers:
  "Header (sign_request x cf req method api data a) ''X-Signature'' =
     Some (base64_EncodeToString x (hmac_sha256 x (AccessKeySecret cf)
        (method @ api @ AccessKeyID cf @ itoa (rand_Int a) @ itoa (sint (now_Unix a)) @ data)))"
  "Header (sign_request x cf req method api data a) ''X-Nonce'' = Some (itoa (rand_Int a))"
  "Header (sign_request x cf req method api data a) ''X-Timestamp'' = Some (itoa (sint (now_Unix a)))"
  "Header (sign_request x cf req method api data a) ''X-AccessKeyId'' = Some (AccessKeyID cf)"
  "Body (sign_request x cf req method api data a) = Body req"
  "Method (sign_request x cf req method api data a) = Method req"
  "URL (sign_request x cf req method api data a) = URL req"
  by (simp_all add: sign_request_def Header_Set_def Let_def calculateSignature_eq)

lemma prepare_request_Inr:
  "prepare_request x cf data rc = Inr req \<Longrightarrow>
     Body req = data \<and> Method req = ''POST'' \<and> URL req = Endpoint cf @ ''/v1/collect''"
  by (auto simp: prepare_request_def NewRequest_def Header_Set_def Let_def
      split: option.splits if_splits)

lemma signed_for_sign_request:
  "prepare_request x cf data rc = Inr req \<Longrightarrow>
     signed_for x cf (sign_request x cf req ''POST'' ''/v1/collect'' data a)"
  by (simp add: signed_for_def sign_request_headers prepare_request_Inr)

lemma retry_sent_signed:
  "retry x cf data rc ti tmax script = Some r \<Longrightarrow> req \<in> set (sent r) \<Longrightarrow>
     signed_for x cf req \<and> Body req = data \<and> Method req = ''POST''
       \<and> URL req = Endpoint cf @ ''/v1/collect''"
proof (induction script arbitrary: rc ti r)
  case Nil
  then show ?case by simp
next
  case (Cons a as)
  show ?case
  proof (cases "prepare_request x cf data (rc + 1)")
    case (Inl err)
    with Cons.prems show ?thesis by auto
  next
    case (Inr req0)
    let ?req' = "sign_request x cf req0 ''POST'' ''/v1/collect'' data a"
    have good: "signed_for x cf ?req' \<and> Body ?req' = data \<and> Method ?req' = ''POST''
       \<and> URL ?req' = Endpoint cf @ ''/v1/collect''"
      using Inr by (simp add: signed_for_sign_request sign_request_headers prepare_request_Inr)
    show ?thesis
    proof (cases "handle_outcome x (outcome a)")
      case None
      with Cons.prems Inr good show ?thesis
        by (auto simp: doRequestWithContext_def)
    next
      case (Some err)
      show ?thesis
      proof (cases "isCaredError err \<and> wait a = TimerFired")
        case False
        with Cons.prems Inr Some good show ?thesis
          by (auto simp: doRequestWithContext_def Let_def split: wait_outcome.splits if_splits)
      next
        case True
        with Cons.prems(1) Inr Some obtain r' where
          r': "retry x cf data (rc + 1) (next_interval ti tmax) tmax as = Some r'"
          and r: "sent r = ?req' # sent r'"
          by (auto simp: doRequestWithContext_def Let_def)
        from Cons.prems(2) r have "req = ?req' \<or> req \<in> set (sent r')" by simp
        then show ?thesis
          using good Cons.IH [OF r'] by blast
      qed
    qed
  qed
qed

text \<open>
  C6. Every request that \<open>Collect\<close> sends is a POST to the endpoint followed by
  \<open>/v1/collect\<close> whose \<open>X-Signature\<close> header is the base64 text of the HMAC-SHA256,
  keyed by the access key secret, of the method, the path \<open>/v1/collect\<close>, the access
  key id, the nonce and the timestamp (those of the request's own \<open>X-Nonce\<close> and
  \<open>X-Timestamp\<close> headers) and the body of the request, concatenated in this order.
  The signature is a function of these inputs: equal inputs give equal signatures.
\<close>

theorem Collect_signature:
  "Client_Collect x c messages script = Some r \<Longrightarrow> req \<in> set (sent r) \<Longrightarrow>
     Method req = ''POST''
     \<and> URL req = Endpoint (conf c) @ ''/v1/collect''
     \<and> Header req ''X-Nonce'' \<noteq> None \<and> Header req ''X-Timestamp'' \<noteq> None
     \<and> Header req ''X-Signature'' =
         Some (base64_EncodeToString x
           (hmac_sha256 x (AccessKeySecret (conf c))
              (Method req @ ''/v1/collect'' @ AccessKeyID (conf c)
                 @ the (Header req ''X-Nonce'') @ the (Header req ''X-Timestamp'')
                 @ Body req)))"
proof -
  assume c: "Client_Collect x c messages script = Some r" and m: "req \<in> set (sent r)"
  then obtain data where
    "retry x (conf c) data (reqCount c) (RetryTimeIntervalInitial (conf c))
       (RetryTimeIntervalMax (conf c)) script = Some r"
    by (auto simp: Client_Collect_def split: sum.splits)
  from retry_sent_signed [OF this m] show ?thesis
    by (auto simp: signed_for_def split: option.splits)
qed

theorem Collect_signature_witness:
  "\<exists>r req. Client_Collect stub_externals example_Client example_Messages [attempt_200] = Some r
      \<and> sent r = [req]
      \<and> Header req ''X-Signature'' =
          Some ''b64:mac(adminSecret,POST/v1/collectadmin431700000001gz:json:b-0-0)''"
proof -
  from example_collect_200 obtain r req where
    r: "Client_Collect stub_externals example_Client example_Messages [attempt_200] = Some r"
    and s: "sent r = [req]" by blast
  have nonce: "Header req ''X-Nonce'' = Some ''43''"
    and ts: "Header req ''X-Timestamp'' = Some ''1700000001''"
    and body: "Body req = ''gz:json:b-0-0''"
    using r s
    by (auto simp: example_defs collect_defs sign_request_def Header_Set_def itoa_def
        string_of_nat.simps digit_char_def)
  from Collect_signature [OF r, of req] s nonce ts body
  have "Header req ''X-Signature'' =
          Some ''b64:mac(adminSecret,POST/v1/collectadmin431700000001gz:json:b-0-0)''"
    by (simp add: example_defs)
  with r s show ?thesis by blast
qed

subsection \<open>The retry loop\<close>

lemma prepare_request_ok:
  "url_Parse x (Endpoint cf @ ''/v1/collect'') = None \<Longrightarrow>
     \<exists>req. prepare_request x cf data rc = Inr req"
  by (simp add: prepare_request_def NewRequest_def Let_def)

lemma retry_step:
  assumes "prepare_request x cf data (rc + 1) = Inr req"
  shows "retry x cf data rc ti tmax (a # as) =
     (if goes_on x a then
        map_option (\<lambda>r. r\<lparr>sent := sign_request x cf req ''POST'' ''/v1/collect'' data a # sent r,
                           waits := next_interval ti tmax # waits r\<rparr>)
          (retry x cf data (rc + 1) (next_interval ti tmax) tmax as)
      else Some \<lparr>result = final_result x a,
                 sent = [sign_request x cf req ''POST'' ''/v1/collect'' data a],
                 waits = final_waits x a (next_interval ti tmax), count = rc + 1\<rparr>)"
  using assms
  by (auto simp: goes_on_def final_result_def final_waits_def doRequestWithContext_def Let_def
      split: option.splits wait_outcome.splits)

lemma retry_Some:
  assumes url: "url_Parse x (Endpoint cf @ ''/v1/collect'') = None"
  shows "retry x cf data rc ti tmax script = Some r \<Longrightarrow>
     (\<exists>n a. n < length script \<and> n = length (takeWhile (goes_on x) script)
        \<and> a = script ! n \<and> \<not> goes_on x a
        \<and> length (sent r) = Suc n
        \<and> result r = final_result x a
        \<and> waits r = intervals ti tmax n @ final_waits x a (last (ti # intervals ti tmax (Suc n))))"
proof (induction script arbitrary: rc ti r)
  case Nil
  then show ?case by simp
next
  case (Cons a as)
  from prepare_request_ok [OF url] obtain req where
    req: "prepare_request x cf data (rc + 1) = Inr req" by blast
  note step = retry_step [OF req, of ti tmax a as]
  show ?case
  proof (cases "goes_on x a")
    case False
    with Cons.prems step show ?thesis by (auto simp del: retry.simps)
  next
    case True
    with Cons.prems step obtain r' where
      r': "retry x cf data (rc + 1) (next_interval ti tmax) tmax as = Some r'"
      and r: "r = r'\<lparr>sent := sign_request x cf req ''POST'' ''/v1/collect'' data a # sent r',
                     waits := next_interval ti tmax # waits r'\<rparr>"
      by (auto simp del: retry.simps)
    from Cons.IH [OF r'] True r show ?thesis by auto
  qed
qed

lemma retry_returns:
  assumes url: "url_Parse x (Endpoint cf @ ''/v1/collect'') = None"
  shows "\<exists>a \<in> set script. \<not> goes_on x a \<Longrightarrow> \<exists>r. retry x cf data rc ti tmax script = Some r"
proof (induction script arbitrary: rc ti)
  case Nil
  then show ?case by simp
next
  case (Cons a as)
  from prepare_request_ok [OF url] obtain req where
    req: "prepare_request x cf data (rc + 1) = Inr req" by blast
  note step = retry_step [OF req, of ti tmax a as]
  show ?case
  proof (cases "goes_on x a")
    case False
    with step show ?thesis by (simp del: retry.simps)
  next
    case True
    with Cons.prems have "\<exists>a \<in> set as. \<not> goes_on x a" by auto
    from Cons.IH [OF this, of "rc + 1" "next_interval ti tmax"] True step
    show ?thesis by (auto simp del: retry.simps)
  qed
qed

lemma isCaredError_iff:
  "isCaredError err =
     (case errors_As_Error err of
        Some e \<Rightarrow> StatusCode e = 429 \<or> StatusCode e = 408 \<or> StatusCode e = 502
                  \<or> StatusCode e = 503 \<or> StatusCode e = 504
      | None \<Rightarrow> errors_Is_Errno err ETIMEDOUT \<or> errors_Is_Errno err ECONNREFUSED)"
  by (auto simp: isCaredError_def StatusTooManyRequests_def StatusRequestTimeout_def
      StatusBadGateway_def StatusServiceUnavailable_def StatusGatewayTimeout_def
      split: option.splits)

lemma Collect_encode_error:
  "encode_body x (conf c) messages = Inl err \<Longrightarrow>
     Client_Collect x c messages script =
       Some \<lparr>result = Some err, sent = [], waits = [], count = reqCount c\<rparr>"
  by (simp add: Client_Collect_def)

lemma Collect_encoded:
  "encode_body x (conf c) messages = Inr data \<Longrightarrow>
     Client_Collect x c messages script =
       retry x (conf c) data (reqCount c) (RetryTimeIntervalInitial (conf c))
         (RetryTimeIntervalMax (conf c)) script"
  by (simp add: Client_Collect_def)

lemma takeWhile_index:
  "n = length (takeWhile P xs) \<Longrightarrow> i < n \<Longrightarrow> P (xs ! i)"
  by (metis nth_length_takeWhile takeWhile_nth nth_mem set_takeWhileD)

text \<open>
  C3 as stated fails for serialization errors: \<open>Collect\<close> returns them before any
  request is built, after no send attempt rather than one.
\<close>

theorem encode_error_no_send:
  "map_option (\<lambda>r. (result r, length (sent r)))
     (Client_Collect failing_externals example_Client example_Messages [attempt_200]) =
   Some (Some (ErrorString ''json: unsupported value: NaN''), 0)"
  by (simp add: example_defs collect_defs)

lemma first_stop:
  assumes "n < length xs" "\<forall>j < n. P (xs ! j)" "\<not> P (xs ! n)"
  shows "length (takeWhile P xs) = n"
proof -
  let ?m = "length (takeWhile P xs)"
  have "?m \<le> length xs" by (rule length_takeWhile_le)
  have "\<not> ?m < n"
  proof
    assume "?m < n"
    with assms(1,2) have "P (xs ! ?m)" by simp
    moreover from \<open>?m < n\<close> assms(1) have "?m < length xs" by simp
    then have "\<not> P (xs ! ?m)" by (rule nth_length_takeWhile)
    ultimately show False by simp
  qed
  moreover have "\<not> n < ?m"
  proof
    assume "n < ?m"
    then have "P (xs ! n)" by (rule takeWhile_index [OF refl])
    with assms(3) show False by simp
  qed
  ultimately show ?thesis by simp
qed

lemma retry_total:
  assumes url: "url_Parse x (Endpoint cf @ ''/v1/collect'') = None"
    and n: "n < length script"
    and before: "\<forall>j < n. goes_on x (script ! j)"
    and stop: "\<not> goes_on x (script ! n)"
  shows "\<exists>r. retry x cf data rc ti tmax script = Some r \<and> length (sent r) = Suc n
           \<and> result r = final_result x (script ! n)"
proof -
  from n stop have "\<exists>a \<in> set script. \<not> goes_on x a" by (metis nth_mem)
  from retry_returns [OF url this] obtain r where
    r: "retry x cf data rc ti tmax script = Some r" by blast
  from retry_Some [OF url r] obtain m where
    m: "m = length (takeWhile (goes_on x) script)" "length (sent r) = Suc m"
       "result r = final_result x (script ! m)"
    by blast
  from first_stop [OF n before stop] m have "m = n" by simp
  with r m show ?thesis by simp
qed

lemma retry_exhausted:
  assumes url: "url_Parse x (Endpoint cf @ ''/v1/collect'') = None"
  shows "\<forall>a \<in> set script. goes_on x a \<Longrightarrow> retry x cf data rc ti tmax script = None"
proof (induction script arbitrary: rc ti)
  case Nil
  show ?case by simp
next
  case (Cons a as)
  from prepare_request_ok [OF url] obtain req where
    req: "prepare_request x cf data (rc + 1) = Inr req" by blast
  from Cons.prems have "goes_on x a" "\<forall>a \<in> set as. goes_on x a" by simp_all
  with Cons.IH [of "rc + 1" "next_interval ti tmax"] retry_step [OF req, of ti tmax a as]
  show ?case by (simp del: retry.simps)
qed

lemma example_handle_400:
  "handle_outcome stub_externals (outcome attempt_400) =
     Some (HttpError \<lparr>StatusCode = 400, Status = ''400 Bad Request'', Message = [],
                       Errors = []\<rparr>)"
  "\<not> isCaredError (HttpError \<lparr>StatusCode = 400, Status = ''400 Bad Request'', Message = [],
                       Errors = []\<rparr>)"
  by (simp_all add: attempt_400_def example_defs collect_defs)

text \<open>
  C3, amended. An error is retryable exactly when it is (or wraps) an \<open>Error\<close> with
  status 429, 408, 502, 503 or 504, or else is (or wraps) the errno \<open>ETIMEDOUT\<close> or
  \<open>ECONNREFUSED\<close>. A serialization or compression error is returned with no send
  attempt at all. Once the body is encoded and the URL parses: when the first \<open>n\<close>
  attempts each fail with a retryable error and are followed by a wait that its
  timer ends, and attempt \<open>n\<close> is not of this kind, \<open>Collect\<close> returns after exactly
  \<open>n + 1\<close> send attempts; it returns the error of attempt \<open>n\<close> when that error is
  not retryable, \<open>nil\<close> when attempt \<open>n\<close> succeeded, and \<open>ctx.Err()\<close> when the
  error is retryable and the context ended the wait. While every attempt fails
  with a retryable error and every wait is ended by its timer, \<open>Collect\<close> goes on
  retrying and does not return.
\<close>

theorem Collect_retry_iff:
  "(isCaredError err =
      (case errors_As_Error err of
         Some e \<Rightarrow> StatusCode e = 429 \<or> StatusCode e = 408 \<or> StatusCode e = 502
                   \<or> StatusCode e = 503 \<or> StatusCode e = 504
       | None \<Rightarrow> errors_Is_Errno err ETIMEDOUT \<or> errors_Is_Errno err ECONNREFUSED))
   \<and> (\<forall>eerr. encode_body x (conf c) messages = Inl eerr \<longrightarrow>
         Client_Collect x c messages script =
           Some \<lparr>result = Some eerr, sent = [], waits = [], count = reqCount c\<rparr>)
   \<and> (\<forall>data n. encode_body x (conf c) messages = Inr data
         \<and> url_Parse x (Endpoint (conf c) @ ''/v1/collect'') = None
         \<and> n < length script
         \<and> (\<forall>j < n. \<exists>e. handle_outcome x (outcome (script ! j)) = Some e \<and> isCaredError e
                        \<and> wait (script ! j) = TimerFired)
         \<and> \<not> (\<exists>e. handle_outcome x (outcome (script ! n)) = Some e \<and> isCaredError e
                   \<and> wait (script ! n) = TimerFired) \<longrightarrow>
         (\<exists>r. Client_Collect x c messages script = Some r
            \<and> length (sent r) = Suc n
            \<and> (\<forall>e. handle_outcome x (outcome (script ! n)) = Some e \<and> \<not> isCaredError e
                    \<longrightarrow> result r = Some e)
            \<and> (handle_outcome x (outcome (script ! n)) = None \<longrightarrow> result r = None)
            \<and> (\<forall>e cerr. handle_outcome x (outcome (script ! n)) = Some e \<and> isCaredError e
                    \<and> wait (script ! n) = CtxDone cerr \<longrightarrow> result r = Some cerr)))
   \<and> (\<forall>data. encode_body x (conf c) messages = Inr data
         \<and> url_Parse x (Endpoint (conf c) @ ''/v1/collect'') = None
         \<and> (\<forall>j < length script. \<exists>e. handle_outcome x (outcome (script ! j)) = Some e
                        \<and> isCaredError e \<and> wait (script ! j) = TimerFired) \<longrightarrow>
         Client_Collect x c messages script = None)"
proof (intro conjI allI impI)
  show "isCaredError err =
      (case errors_As_Error err of
         Some e \<Rightarrow> StatusCode e = 429 \<or> StatusCode e = 408 \<or> StatusCode e = 502
                   \<or> StatusCode e = 503 \<or> StatusCode e = 504
       | None \<Rightarrow> errors_Is_Errno err ETIMEDOUT \<or> errors_Is_Errno err ECONNREFUSED)"
    by (rule isCaredError_iff)
next
  fix eerr assume "encode_body x (conf c) messages = Inl eerr"
  then show "Client_Collect x c messages script =
      Some \<lparr>result = Some eerr, sent = [], waits = [], count = reqCount c\<rparr>"
    by (rule Collect_encode_error)
next
  fix data n
  assume a: "encode_body x (conf c) messages = Inr data
         \<and> url_Parse x (Endpoint (conf c) @ ''/v1/collect'') = None
         \<and> n < length script
         \<and> (\<forall>j < n. \<exists>e. handle_outcome x (outcome (script ! j)) = Some e \<and> isCaredError e
                        \<and> wait (script ! j) = TimerFired)
         \<and> \<not> (\<exists>e. handle_outcome x (outcome (script ! n)) = Some e \<and> isCaredError e
                   \<and> wait (script ! n) = TimerFired)"
  then have enc: "encode_body x (conf c) messages = Inr data"
    and url: "url_Parse x (Endpoint (conf c) @ ''/v1/collect'') = None"
    and n: "n < length script" by simp_all
  from a have before: "\<forall>j < n. goes_on x (script ! j)"
    by (auto simp: goes_on_def)
  from a have stop: "\<not> goes_on x (script ! n)"
    by (auto simp: goes_on_def split: option.splits)
  from retry_total [OF url n before stop] obtain r where
    r: "retry x (conf c) data (reqCount c) (RetryTimeIntervalInitial (conf c))
         (RetryTimeIntervalMax (conf c)) script = Some r"
    and l: "length (sent r) = Suc n"
    and res: "result r = final_result x (script ! n)" by blast
  from r Collect_encoded [OF enc, of script]
  have "Client_Collect x c messages script = Some r" by simp
  moreover have "\<forall>e. handle_outcome x (outcome (script ! n)) = Some e \<and> \<not> isCaredError e
                    \<longrightarrow> result r = Some e"
    using res by (simp add: final_result_def)
  moreover have "handle_outcome x (outcome (script ! n)) = None \<longrightarrow> result r = None"
    using res by (simp add: final_result_def)
  moreover have "\<forall>e cerr. handle_outcome x (outcome (script ! n)) = Some e \<and> isCaredError e
                    \<and> wait (script ! n) = CtxDone cerr \<longrightarrow> result r = Some cerr"
    using res by (simp add: final_result_def)
  ultimately show "\<exists>r. Client_Collect x c messages script = Some r
            \<and> length (sent r) = Suc n
            \<and> (\<forall>e. handle_outcome x (outcome (script ! n)) = Some e \<and> \<not> isCaredError e
                    \<longrightarrow> result r = Some e)
            \<and> (handle_outcome x (outcome (script ! n)) = None \<longrightarrow> result r = None)
            \<and> (\<forall>e cerr. handle_outcome x (outcome (script ! n)) = Some e \<and> isCaredError e
                    \<and> wait (script ! n) = CtxDone cerr \<longrightarrow> result r = Some cerr)"
    using l by - (rule exI [of _ r], intro conjI, assumption+)
next
  fix data
  assume a: "encode_body x (conf c) messages = Inr data
         \<and> url_Parse x (Endpoint (conf c) @ ''/v1/collect'') = None
         \<and> (\<forall>j < length script. \<exists>e. handle_outcome x (outcome (script ! j)) = Some e
                        \<and> isCaredError e \<and> wait (script ! j) = TimerFired)"
  then have enc: "encode_body x (conf c) messages = Inr data"
    and url: "url_Parse x (Endpoint (conf c) @ ''/v1/collect'') = None" by simp_all
  from a have "\<forall>j < length script. goes_on x (script ! j)"
    by (auto simp: goes_on_def)
  then have "\<forall>a \<in> set script. goes_on x a"
    by (auto simp: in_set_conv_nth)
  from retry_exhausted [OF url this] Collect_encoded [OF enc, of script]
  show "Client_Collect x c messages script = None" by simp
qed

theorem Collect_retry_iff_witness:
  "isCaredError (HttpError \<lparr>StatusCode = 503, Status = ''503 Service Unavailable'',
      Message = ''busy'', Errors = []\<rparr>)
   \<and> encode_body stub_externals (conf example_Client) example_Messages = Inr ''gz:json:b-0-0''
   \<and> url_Parse stub_externals (Endpoint (conf example_Client) @ ''/v1/collect'') = None
   \<and> (\<exists>r. Client_Collect stub_externals example_Client example_Messages
             [attempt_503, attempt_200] = Some r
          \<and> length (sent r) = 2 \<and> result r = None)
   \<and> (\<exists>r. Client_Collect stub_externals example_Client example_Messages
             [attempt_400, attempt_200] = Some r
          \<and> length (sent r) = 1
          \<and> result r = Some (HttpError \<lparr>StatusCode = 400, Status = ''400 Bad Request'',
                                         Message = [], Errors = []\<rparr>))
   \<and> Client_Collect stub_externals example_Client example_Messages [attempt_503] = None"
proof -
  let ?e503 = "HttpError \<lparr>StatusCode = 503, Status = ''503 Service Unavailable'',
      Message = ''busy'', Errors = []\<rparr>"
  note thm1 = Collect_retry_iff [of ?e503 stub_externals example_Client example_Messages
      "[attempt_503, attempt_200]"]
  note thm2 = Collect_retry_iff [of ?e503 stub_externals example_Client example_Messages
      "[attempt_400, attempt_200]"]
  note thm3 = Collect_retry_iff [of ?e503 stub_externals example_Client example_Messages
      "[attempt_503]"]
  have a: "isCaredError ?e503" using example_handle by simp
  have b: "\<exists>r. Client_Collect stub_externals example_Client example_Messages
             [attempt_503, attempt_200] = Some r
          \<and> length (sent r) = 2 \<and> result r = None"
    using thm1 [THEN conjunct2, THEN conjunct2, THEN conjunct1, rule_format,
        of "''gz:json:b-0-0''" 1] example_encode example_url example_handle
    by (auto simp: less_Suc_eq numeral_2_eq_2)
  have c: "\<exists>r. Client_Collect stub_externals example_Client example_Messages
             [attempt_400, attempt_200] = Some r
          \<and> length (sent r) = 1
          \<and> result r = Some (HttpError \<lparr>StatusCode = 400, Status = ''400 Bad Request'',
                                         Message = [], Errors = []\<rparr>)"
    using thm2 [THEN conjunct2, THEN conjunct2, THEN conjunct1, rule_format,
        of "''gz:json:b-0-0''" 0] example_encode example_url example_handle_400
    by auto
  have d: "Client_Collect stub_externals example_Client example_Messages [attempt_503] = None"
    using thm3 [THEN conjunct2, THEN conjunct2, THEN conjunct2, rule_format,
        of "''gz:json:b-0-0''"] example_encode example_url example_handle
    by (simp add: less_Suc_eq)
  from a example_encode example_url b c d show ?thesis by (intro conjI)
qed

text \<open>
  C8. When the attempts before the \<open>i\<close>-th all failed with a retryable error and
  were followed by a completed wait, the \<open>i\<close>-th fails with a retryable error too
  and the context is done during the wait that follows, then \<open>Collect\<close> returns,
  its result is \<open>ctx.Err()\<close> and not the transport error, and the \<open>i\<close>-th attempt
  was the last request it sent.
\<close>

theorem Collect_cancelled_during_backoff:
  assumes enc: "encode_body x (conf c) messages = Inr data"
    and url: "url_Parse x (Endpoint (conf c) @ ''/v1/collect'') = None"
    and i: "i < length script"
    and before: "\<forall>j < i. \<exists>e. handle_outcome x (outcome (script ! j)) = Some e
                   \<and> isCaredError e \<and> wait (script ! j) = TimerFired"
    and fails: "handle_outcome x (outcome (script ! i)) = Some err" "isCaredError err"
    and cancelled: "wait (script ! i) = CtxDone cerr"
  shows "\<exists>r. Client_Collect x c messages script = Some r \<and> result r = Some cerr
           \<and> length (sent r) = Suc i"
proof -
  have stop: "\<not> goes_on x (script ! i)"
    using fails cancelled by (simp add: goes_on_def)
  with i have "\<exists>a \<in> set script. \<not> goes_on x a" by (metis nth_mem)
  from retry_returns [OF url this] obtain r where
    run: "retry x (conf c) data (reqCount c) (RetryTimeIntervalInitial (conf c))
         (RetryTimeIntervalMax (conf c)) script = Some r" by blast
  from retry_Some [OF url run] obtain n where
    n: "n < length script" "n = length (takeWhile (goes_on x) script)"
       "\<not> goes_on x (script ! n)" "length (sent r) = Suc n"
       "result r = final_result x (script ! n)"
    by blast
  have "\<forall>j < i. goes_on x (script ! j)"
    using before by (auto simp: goes_on_def)
  then have "i \<le> n" using n(1,3) by (meson not_le)
  moreover have "n \<le> i"
  proof (rule ccontr)
    assume "\<not> n \<le> i"
    then have "i < n" by simp
    then have "goes_on x (script ! i)" using n(2) by (rule takeWhile_index [rotated])
    with stop show False by simp
  qed
  ultimately have "n = i" by simp
  with n(4,5) fails cancelled have "result r = Some cerr \<and> length (sent r) = Suc i"
    by (simp add: final_result_def)
  with run Collect_encoded [OF enc, of script] show ?thesis by simp
qed

theorem Collect_cancelled_during_backoff_witness:
  "encode_body stub_externals (conf example_Client) example_Messages = Inr ''gz:json:b-0-0''
   \<and> url_Parse stub_externals (Endpoint (conf example_Client) @ ''/v1/collect'') = None
   \<and> wait ([attempt_503, attempt_503_cancelled] ! 1) = CtxDone Canceled
   \<and> (\<exists>r. Client_Collect stub_externals example_Client example_Messages
             [attempt_503, attempt_503_cancelled] = Some r
          \<and> result r = Some Canceled \<and> length (sent r) = Suc 1)"
  using Collect_cancelled_during_backoff [OF example_encode example_url,
      of 1 "[attempt_503, attempt_503_cancelled]" _ Canceled]
    example_encode example_url example_handle
  by (simp add: less_Suc_eq)

text \<open>
  C1, at the default intervals (100ms, 5s) and one 503 before the 200: the loop
  doubles \<open>timeInterval\<close> before the first wait, so the first wait is 200ms and not
  \<open>RetryTimeIntervalInitial\<close>.
\<close>

theorem backoff_first_wait_doubled:
  "map_option waits (Client_Collect stub_externals example_Client example_Messages
      [attempt_503, attempt_200]) = Some [200 * Millisecond]
   \<and> RetryTimeIntervalInitial (conf example_Client) = 100 * Millisecond"
  by (simp add: example_defs collect_defs)

subsection \<open>The batching loop: sizes of the batches\<close>

lemma chunks_Nil [simp]: "chunks k [] = []"
  by (simp add: chunks.simps)







lemma loop_InMsg:
  "loop s ((now, InMsg msg) # es) =
     (if MaxMessagesPerBatch (bc_conf (bc s)) \<le> int (Suc (length (Messages (cur s))))
      then loop (s\<lparr>outBatches := outBatches s @ [(cur s)\<lparr>Messages := Messages (cur s) @ [msg]\<rparr>],
                   cur := fst (newBatch now (bc s)), bc := snd (newBatch now (bc s)),
                   timer := Some (now + sint (MaxDurationPerBatch (bc_conf (bc s))))\<rparr>) es
      else loop (s\<lparr>cur := (cur s)\<lparr>Messages := Messages (cur s) @ [msg]\<rparr>\<rparr>) es)"
  by (simp add: Let_def split: prod.splits)

lemma loop_CloseCh:
  "loop s ((now, CloseCh) # es) =
     Some (if Messages (cur s) \<noteq> [] then s\<lparr>outBatches := outBatches s @ [cur s], exited := True\<rparr>
           else s\<lparr>exited := True\<rparr>)"
  by simp






subsection \<open>The batching loop: the age timer\<close>



subsection \<open>The batching loop: which runs have a state\<close>

text \<open>
  The model gives no state to a list of events in one case only: the list holds a
  value of \<open>timer.C\<close> at a point where the loop is still running and the timer is
  not set or not yet due, which is an event that cannot occur. Every other list
  of events leads to a state.
\<close>

lemma loop_TimerC:
  "loop s ((now, TimerC) # es) =
     (if \<not> timer_due s now then None
      else if Messages (cur s) \<noteq> [] then
        loop (s\<lparr>outBatches := outBatches s @ [cur s],
                cur := fst (newBatch now (bc s)), bc := snd (newBatch now (bc s)),
                timer := None\<rparr>) es
      else loop (s\<lparr>timer := None\<rparr>) es)"
  by (auto simp: timer_due_def split: option.splits prod.splits)

lemma loop_None_iff:
  "\<not> exited s \<Longrightarrow>
   (loop s es = None) =
   (\<exists>pre t rest s'. es = pre @ (t, TimerC) # rest \<and> loop s pre = Some s'
       \<and> \<not> exited s' \<and> \<not> timer_due s' t)"
proof (induction es arbitrary: s)
  case Nil
  then show ?case by simp
next
  case (Cons e es)
  obtain now ev where e: "e = (now, ev)" by (cases e)
  show ?case
  proof (cases ev)
    case (InMsg msg)
    define s1 where "s1 =
      (if MaxMessagesPerBatch (bc_conf (bc s)) \<le> int (Suc (length (Messages (cur s))))
       then s\<lparr>outBatches := outBatches s @ [(cur s)\<lparr>Messages := Messages (cur s) @ [msg]\<rparr>],
                cur := fst (newBatch now (bc s)), bc := snd (newBatch now (bc s)),
                timer := Some (now + sint (MaxDurationPerBatch (bc_conf (bc s))))\<rparr>
       else s\<lparr>cur := (cur s)\<lparr>Messages := Messages (cur s) @ [msg]\<rparr>\<rparr>)"
    have step: "loop s ((now, InMsg msg) # xs) = loop s1 xs" for xs
      unfolding s1_def by (simp only: loop_InMsg split: if_splits) simp
    have ne: "\<not> exited s1" using Cons.prems by (simp add: s1_def)
    have "(\<exists>pre t rest s'. e # es = pre @ (t, TimerC) # rest \<and> loop s pre = Some s'
             \<and> \<not> exited s' \<and> \<not> timer_due s' t) =
          (\<exists>pre t rest s'. es = pre @ (t, TimerC) # rest \<and> loop s1 pre = Some s'
             \<and> \<not> exited s' \<and> \<not> timer_due s' t)" (is "?L = ?R")
    proof
      assume ?L
      then obtain pre t rest s' where
        p: "e # es = pre @ (t, TimerC) # rest" "loop s pre = Some s'"
           "\<not> exited s'" "\<not> timer_due s' t" by blast
      from p(1) e InMsg obtain pre' where pre: "pre = e # pre'" "es = pre' @ (t, TimerC) # rest"
        by (cases pre) auto
      with p(2) e InMsg step have "loop s1 pre' = Some s'" by simp
      with pre p(3,4) show ?R by blast
    next
      assume ?R
      then obtain pre t rest s' where
        p: "es = pre @ (t, TimerC) # rest" "loop s1 pre = Some s'"
           "\<not> exited s'" "\<not> timer_due s' t" by blast
      from p(2) e InMsg step have "loop s (e # pre) = Some s'" by simp
      moreover from p(1) have "e # es = (e # pre) @ (t, TimerC) # rest" by simp
      ultimately show ?L using p(3,4) by blast
    qed
    with Cons.IH [OF ne] step e InMsg show ?thesis by simp
  next
    case TimerC
    show ?thesis
    proof (cases "timer_due s now")
      case False
      have "loop s [] = Some s" by simp
      moreover have "e # es = [] @ (now, TimerC) # es" using e TimerC by simp
      ultimately have "\<exists>pre t rest s'. e # es = pre @ (t, TimerC) # rest \<and> loop s pre = Some s'
             \<and> \<not> exited s' \<and> \<not> timer_due s' t"
        using False Cons.prems by blast
      moreover from False have "loop s (e # es) = None"
        using e TimerC by (simp only: loop_TimerC) simp
      ultimately show ?thesis by simp
    next
      case True
      define s1 where "s1 =
        (if Messages (cur s) \<noteq> [] then
           s\<lparr>outBatches := outBatches s @ [cur s],
             cur := fst (newBatch now (bc s)), bc := snd (newBatch now (bc s)),
             timer := None\<rparr>
         else s\<lparr>timer := None\<rparr>)"
      have step: "loop s ((now, TimerC) # xs) = loop s1 xs" for xs
        unfolding s1_def using True by (simp only: loop_TimerC split: if_splits) simp
      have ne: "\<not> exited s1" using Cons.prems by (simp add: s1_def)
      have "(\<exists>pre t rest s'. e # es = pre @ (t, TimerC) # rest \<and> loop s pre = Some s'
               \<and> \<not> exited s' \<and> \<not> timer_due s' t) =
            (\<exists>pre t rest s'. es = pre @ (t, TimerC) # rest \<and> loop s1 pre = Some s'
               \<and> \<not> exited s' \<and> \<not> timer_due s' t)" (is "?L = ?R")
      proof
        assume ?L
        then obtain pre t rest s' where
          p: "e # es = pre @ (t, TimerC) # rest" "loop s pre = Some s'"
             "\<not> exited s'" "\<not> timer_due s' t" by blast
        have "pre \<noteq> []"
        proof
          assume "pre = []"
          with p(1,2) e have "t = now" "s' = s" by simp_all
          with p(4) True show False by simp
        qed
        with p(1) obtain pre' where pre: "pre = e # pre'" "es = pre' @ (t, TimerC) # rest"
          by (cases pre) auto
        with p(2) e TimerC step have "loop s1 pre' = Some s'" by simp
        with pre p(3,4) show ?R by blast
      next
        assume ?R
        then obtain pre t rest s' where
          p: "es = pre @ (t, TimerC) # rest" "loop s1 pre = Some s'"
             "\<not> exited s'" "\<not> timer_due s' t" by blast
        from p(2) e TimerC step have "loop s (e # pre) = Some s'" by simp
        moreover from p(1) have "e # es = (e # pre) @ (t, TimerC) # rest" by simp
        ultimately show ?L using p(3,4) by blast
      qed
      with Cons.IH [OF ne] step e TimerC show ?thesis by simp
    qed
  next
    case CloseCh
    have "\<not> (\<exists>pre t rest s'. e # es = pre @ (t, TimerC) # rest \<and> loop s pre = Some s'
             \<and> \<not> exited s' \<and> \<not> timer_due s' t)"
    proof
      assume "\<exists>pre t rest s'. e # es = pre @ (t, TimerC) # rest \<and> loop s pre = Some s'
             \<and> \<not> exited s' \<and> \<not> timer_due s' t"
      then obtain pre t rest s' where
        p: "e # es = pre @ (t, TimerC) # rest" "loop s pre = Some s'" "\<not> exited s'" by blast
      from p(1) e CloseCh obtain pre' where "pre = (now, CloseCh) # pre'"
        by (cases pre) auto
      with p(2) have "exited s'" by (auto split: if_splits)
      with p(3) show False by simp
    qed
    moreover have "loop s (e # es) \<noteq> None" using e CloseCh by simp
    ultimately show ?thesis by blast
  qed
qed

lemma batchingLoop_None_iff:
  "(batchingLoop bc0 t0 es = None) =
   (\<exists>pre t rest s'. es = pre @ (t, TimerC) # rest \<and> batchingLoop bc0 t0 pre = Some s'
       \<and> \<not> exited s' \<and> \<not> timer_due s' t)"
proof -
  let ?s0 = "\<lparr>bc = snd (newBatch t0 bc0), cur = fst (newBatch t0 bc0),
             timer = Some (t0 + sint (MaxDurationPerBatch (bc_conf bc0))),
             outBatches = [], exited = False\<rparr>"
  have "batchingLoop bc0 t0 xs = loop ?s0 xs" for xs
    by (simp add: batchingLoop_def split: prod.splits)
  moreover have "\<not> exited ?s0" by simp
  ultimately show ?thesis using loop_None_iff [of ?s0 es] by simp
qed

subsection \<open>The batching loop: batch ids\<close>





















end
